theory Spec2Isabelle
  imports Main "HOL-Library.AList"
begin

section \<open>One-time secrets: the in-memory cache and its HTTP handlers\<close>

text \<open>
  The development embeds \<^verbatim>\<open>app/cache.py\<close> and the three handlers of
  \<^verbatim>\<open>app/main.py\<close>. The process-wide dictionary \<^verbatim>\<open>secrets_cache\<close> and the
  audit table are passed explicitly; every reading of \<^verbatim>\<open>datetime.now()\<close> is an
  argument of the function that takes it; the Fernet cipher and the UUID generator are
  arguments as well, the cipher with the exception it may raise. An exception is a value \<open>Inl e\<close>; a handler returns its outcome
  together with the state it leaves behind, because a raised \<^verbatim>\<open>HTTPException\<close> does
  not undo the mutations made before it.
\<close>

subsection \<open>Time\<close>

text \<open>
  A \<^verbatim>\<open>datetime\<close> is the number of microseconds since 0001-01-01T00:00:00, the
  smallest value of the type; the largest is 9999-12-31T23:59:59.999999, which is day
  3652059 of the proleptic calendar. A \<^verbatim>\<open>timedelta\<close> is a number of microseconds
  whose day count has magnitude at most 999999999. Both constructors raise
  \<^verbatim>\<open>OverflowError\<close> outside these ranges.
\<close>

type_synonym datetime = int
type_synonym timedelta = int

datatype exn =
  OverflowError | KeyError | AttributeError | UnicodeEncodeError | HTTPException nat

definition datetime_max :: datetime where
  "datetime_max = 3652059 * 86400 * 1000000 - 1"

definition timedelta_seconds :: "int \<Rightarrow> exn + timedelta" where
  "timedelta_seconds s =
     (if - 999999999 \<le> s div 86400 \<and> s div 86400 \<le> 999999999
      then Inr (s * 1000000) else Inl OverflowError)"

definition datetime_add :: "datetime \<Rightarrow> timedelta \<Rightarrow> exn + datetime" where
  "datetime_add t d =
     (if 0 \<le> t + d \<and> t + d \<le> datetime_max then Inr (t + d) else Inl OverflowError)"

subsection \<open>The cache (\<^verbatim>\<open>app/cache.py\<close>)\<close>

record SecretEntry =
  encrypted_secret :: string
  passphrase :: "string option"
  expiration :: datetime

text \<open>
  A Python dictionary keeps its keys in insertion order, and the sweep walks them in that
  order, so the cache is an association list: assigning to a present key replaces the
  value in place, assigning to a new key appends, \<^verbatim>\<open>del\<close> drops the key.
\<close>

type_synonym cache = "(string \<times> SecretEntry) list"

definition add_secret ::
  "datetime \<Rightarrow> string \<Rightarrow> string \<Rightarrow> string option \<Rightarrow> int \<Rightarrow> cache \<Rightarrow> exn + cache" where
  "add_secret now secret_key encrypted pass ttl_seconds secrets_cache =
     (let ttl = max ttl_seconds 300 in
      case timedelta_seconds ttl of
        Inl e \<Rightarrow> Inl e
      | Inr delta \<Rightarrow>
          (case datetime_add now delta of
             Inl e \<Rightarrow> Inl e
           | Inr expiration_time \<Rightarrow>
               Inr (AList.update secret_key
                      \<lparr>encrypted_secret = encrypted, passphrase = pass,
                       expiration = expiration_time\<rparr> secrets_cache)))"

text \<open>
  \<^verbatim>\<open>if entry:\<close> tests an instance of a class with neither \<^verbatim>\<open>__bool__\<close> nor
  \<^verbatim>\<open>__len__\<close>, so it holds exactly when the key was found.
\<close>

definition get_secret :: "datetime \<Rightarrow> string \<Rightarrow> cache \<Rightarrow> SecretEntry option \<times> cache" where
  "get_secret now secret_key secrets_cache =
     (case map_of secrets_cache secret_key of
        Some entry \<Rightarrow>
          if now < expiration entry then (Some entry, secrets_cache)
          else (None, AList.delete secret_key secrets_cache)
      | None \<Rightarrow> (None, secrets_cache))"

definition delete_secret :: "string \<Rightarrow> cache \<Rightarrow> cache" where
  "delete_secret secret_key secrets_cache =
     (if secret_key \<in> set (map fst secrets_cache)
      then AList.delete secret_key secrets_cache else secrets_cache)"

text \<open>
  One pass of the \<^verbatim>\<open>while True\<close> loop of \<^verbatim>\<open>clear_expired_secrets\<close>, up to the
  \<^verbatim>\<open>await\<close>. The keys are listed once, before the walk; the clock is read anew for
  every key, \<open>clock i\<close> being the reading taken for the \<open>i\<close>-th key;
  \<^verbatim>\<open>secrets_cache[key]\<close> raises \<^verbatim>\<open>KeyError\<close> on a key that is gone. The pass computes
  nothing besides the mutation: its value is Python's \<^verbatim>\<open>None\<close>, here the \<open>None\<close> of
  \<open>nat option\<close>.
\<close>

fun sweep_keys :: "(nat \<Rightarrow> datetime) \<Rightarrow> nat \<Rightarrow> string list \<Rightarrow> cache \<Rightarrow> exn + cache" where
  "sweep_keys clock i [] secrets_cache = Inr secrets_cache"
| "sweep_keys clock i (key # keys) secrets_cache =
     (case map_of secrets_cache key of
        None \<Rightarrow> Inl KeyError
      | Some entry \<Rightarrow>
          sweep_keys clock (Suc i) keys
            (if clock i \<ge> expiration entry then delete_secret key secrets_cache
             else secrets_cache))"

definition clear_expired_secrets_pass ::
  "(nat \<Rightarrow> datetime) \<Rightarrow> cache \<Rightarrow> exn + nat option \<times> cache" where
  "clear_expired_secrets_pass clock secrets_cache =
     (case sweep_keys clock 0 (map fst secrets_cache) secrets_cache of
        Inl e \<Rightarrow> Inl e
      | Inr c \<Rightarrow> Inr (None, c))"

subsection \<open>The audit log (\<^verbatim>\<open>log_event\<close>)\<close>

text \<open>
  A row of the \<^verbatim>\<open>logs\<close> table, with the columns \<^verbatim>\<open>log_event\<close> sets (the
  database assigns \<^verbatim>\<open>id\<close> and \<^verbatim>\<open>timestamp\<close>). Whether the insert and commit go
  through is the argument \<open>db_ok\<close>: when they do not, the exception is caught inside
  \<^verbatim>\<open>log_event\<close> and the table is unchanged.
\<close>

record Log =
  log_secret_key :: string
  action :: string
  ip_address :: string
  details :: "string option"

definition log_event ::
  "bool \<Rightarrow> string \<Rightarrow> string \<Rightarrow> string \<Rightarrow> string option \<Rightarrow> Log list \<Rightarrow> Log list" where
  "log_event db_ok secret_key act ip dets logs =
     (if db_ok
      then logs @ [\<lparr>log_secret_key = secret_key, action = act, ip_address = ip, details = dets\<rparr>]
      else logs)"

subsection \<open>The handlers (\<^verbatim>\<open>app/main.py\<close>)\<close>

record world =
  cache :: cache
  logs :: "Log list"

record CreateSecretRequest =
  secret :: string
  payload_passphrase :: string
  ttl :: int

text \<open>
  The request, as far as the handlers read it: \<^verbatim>\<open>request.client\<close>, an address or
  \<^verbatim>\<open>None\<close> when the connection carries no client address. Reading
  \<^verbatim>\<open>request.client.host\<close> raises \<^verbatim>\<open>AttributeError\<close> in the second case.
\<close>

datatype Address = Address (host: string) (port: int)

record Request =
  client :: "Address option"

datatype response =
  CreateSecretResponse string
  | GetSecretResponce string
  | DeleteSecretResponse

text \<open>Python's truth value of an \<^verbatim>\<open>Optional[str]\<close>: false for \<^verbatim>\<open>None\<close> and for \<^verbatim>\<open>""\<close>.\<close>

definition py_bool :: "string option \<Rightarrow> bool" where
  "py_bool s = (case s of None \<Rightarrow> False | Some t \<Rightarrow> t \<noteq> [])"

text \<open>\<^verbatim>\<open>str\<close> of an integer and of a truth value, for the details column.\<close>

fun str_nat :: "nat \<Rightarrow> string" where
  "str_nat n =
     (if n < 10 then [''0123456789'' ! n]
      else str_nat (n div 10) @ [''0123456789'' ! (n mod 10)])"

declare str_nat.simps [simp del]

definition str_int :: "int \<Rightarrow> string" where
  "str_int i = (if i < 0 then CHR ''-'' # str_nat (nat (- i)) else str_nat (nat i))"

definition str_bool :: "bool \<Rightarrow> string" where
  "str_bool b = (if b then ''True'' else ''False'')"

text \<open>
  \<open>uuid4\<close> is the identifier \<^verbatim>\<open>uuid.uuid4()\<close> draws for this call.
  \<open>encrypt_data\<close> is the cipher: it yields the token, or the exception it raises
  (\<^verbatim>\<open>data.encode()\<close> raises \<^verbatim>\<open>UnicodeEncodeError\<close> on a lone surrogate), and
  then nothing has been stored. An \<^verbatim>\<open>OverflowError\<close> of \<^verbatim>\<open>add_secret\<close> is not
  caught either. The client address is read after \<^verbatim>\<open>add_secret\<close>: when it is
  missing the handler raises with the record already in the cache.
\<close>

definition create_secret ::
  "(string \<Rightarrow> exn + string) \<Rightarrow> bool \<Rightarrow> datetime \<Rightarrow> string \<Rightarrow> Request \<Rightarrow> CreateSecretRequest
     \<Rightarrow> world \<Rightarrow> (exn + response) \<times> world" where
  "create_secret encrypt_data db_ok now uuid4 request payload w =
     (let secret_key = uuid4 in
      case encrypt_data (secret payload) of
        Inl e \<Rightarrow> (Inl e, w)
      | Inr encrypted \<Rightarrow>
          (let ttl' = max (ttl payload) 300 in
           case add_secret now secret_key encrypted (Some (payload_passphrase payload)) ttl'
                  (cache w) of
             Inl e \<Rightarrow> (Inl e, w)
           | Inr c \<Rightarrow>
               (case client request of
                  None \<Rightarrow> (Inl AttributeError, w\<lparr>cache := c\<rparr>)
                | Some address \<Rightarrow>
                    (Inr (CreateSecretResponse secret_key),
                     \<lparr>cache = c,
                      logs = log_event db_ok secret_key ''create'' (host address)
                        (Some (''TTL: '' @ str_int ttl' @ '', Passphrase provided: ''
                               @ str_bool (py_bool (Some (payload_passphrase payload)))))
                        (logs w)\<rparr>))))"

text \<open>
  \<open>decrypt_data\<close> yields \<open>None\<close> where the cipher raises; the handler catches any
  exception of it and answers 500. The client address is read after
  \<^verbatim>\<open>delete_secret\<close>: when it is missing the handler raises with the record
  already removed.
\<close>

definition get_secret_endpoint ::
  "(string \<Rightarrow> string option) \<Rightarrow> bool \<Rightarrow> datetime \<Rightarrow> string \<Rightarrow> Request \<Rightarrow> world
     \<Rightarrow> (exn + response) \<times> world" where
  "get_secret_endpoint decrypt_data db_ok now secret_key request w =
     (case get_secret now secret_key (cache w) of
        (None, c) \<Rightarrow> (Inl (HTTPException 404), w\<lparr>cache := c\<rparr>)
      | (Some entry, c) \<Rightarrow>
          (case decrypt_data (encrypted_secret entry) of
             None \<Rightarrow> (Inl (HTTPException 500), w\<lparr>cache := c\<rparr>)
           | Some plain_text \<Rightarrow>
               (case client request of
                  None \<Rightarrow> (Inl AttributeError, w\<lparr>cache := delete_secret secret_key c\<rparr>)
                | Some address \<Rightarrow>
                    (Inr (GetSecretResponce plain_text),
                     \<lparr>cache = delete_secret secret_key c,
                      logs = log_event db_ok secret_key ''read'' (host address) None
                               (logs w)\<rparr>))))"

text \<open>
  The passphrase test is the source's two nested conditions taken together:
  \<^verbatim>\<open>if entry.passphrase:\<close> and, inside it,
  \<^verbatim>\<open>if not passphrase or passphrase != entry.passphrase:\<close>. Here too the client
  address is read after \<^verbatim>\<open>delete_secret\<close>.
\<close>

definition delete_secret_endpoint ::
  "bool \<Rightarrow> datetime \<Rightarrow> string \<Rightarrow> Request \<Rightarrow> string option \<Rightarrow> world \<Rightarrow> (exn + response) \<times> world" where
  "delete_secret_endpoint db_ok now secret_key request supplied w =
     (case get_secret now secret_key (cache w) of
        (None, c) \<Rightarrow> (Inl (HTTPException 404), w\<lparr>cache := c\<rparr>)
      | (Some entry, c) \<Rightarrow>
          if py_bool (passphrase entry) \<and> (\<not> py_bool supplied \<or> supplied \<noteq> passphrase entry)
          then (Inl (HTTPException 403), w\<lparr>cache := c\<rparr>)
          else (case client request of
                  None \<Rightarrow> (Inl AttributeError, w\<lparr>cache := delete_secret secret_key c\<rparr>)
                | Some address \<Rightarrow>
                    (Inr DeleteSecretResponse,
                     \<lparr>cache = delete_secret secret_key c,
                      logs = log_event db_ok secret_key ''delete'' (host address) None
                               (logs w)\<rparr>)))"

subsection \<open>Sample data\<close>

text \<open>
  A stand-in cipher (a fixed prefix marks a valid token) and a small cache as it stands
  at 2026-01-01T00:00:00: \<open>K1\<close> was stored with an empty passphrase, \<open>K2\<close> with
  the passphrase \<open>pw1\<close> for ten minutes, \<open>K3\<close> holds a token the cipher rejects.
  \<open>peer\<close> is a request from a known address, \<open>no_peer\<close> one without a client
  address.
\<close>

definition toy_encrypt :: "string \<Rightarrow> exn + string" where
  "toy_encrypt s = Inr (''enc:'' @ s)"

definition toy_decrypt :: "string \<Rightarrow> string option" where
  "toy_decrypt s = (if take 4 s = ''enc:'' then Some (drop 4 s) else None)"

definition t0 :: datetime where
  "t0 = 63902822400000000"

definition entry_hello :: SecretEntry where
  "entry_hello = \<lparr>encrypted_secret = ''enc:hello'', passphrase = Some [],
                   expiration = t0 + 300000000\<rparr>"

definition entry_x :: SecretEntry where
  "entry_x = \<lparr>encrypted_secret = ''enc:x'', passphrase = Some ''pw1'',
               expiration = t0 + 600000000\<rparr>"

definition entry_garbled :: SecretEntry where
  "entry_garbled = \<lparr>encrypted_secret = ''garbled'', passphrase = Some ''pw1'',
                     expiration = t0 + 300000000\<rparr>"

definition sample_world :: world where
  "sample_world = \<lparr>cache = [(''K1'', entry_hello), (''K2'', entry_x), (''K3'', entry_garbled)],
                    logs = []\<rparr>"

definition peer :: Request where
  "peer = \<lparr>client = Some (Address ''127.0.0.1'' 50000)\<rparr>"

definition no_peer :: Request where
  "no_peer = \<lparr>client = None\<rparr>"

lemmas sample_defs =
  toy_encrypt_def toy_decrypt_def t0_def entry_hello_def entry_x_def entry_garbled_def
  sample_world_def peer_def no_peer_def

section \<open>Properties\<close>

subsection \<open>Lookups after the cache operations\<close>

lemma map_of_delete_secret:
  "map_of (delete_secret k c) k' = (if k' = k then None else map_of c k')"
proof (cases "k \<in> set (map fst c)")
  case True
  then show ?thesis by (simp add: delete_secret_def AList.delete_conv')
next
  case False
  then have "map_of c k = None" by (simp add: map_of_eq_None_iff)
  with False show ?thesis by (simp add: delete_secret_def)
qed

lemma distinct_delete_secret:
  "distinct (map fst c) \<Longrightarrow> distinct (map fst (delete_secret k c))"
  by (simp add: delete_secret_def AList.distinct_delete)

lemma get_secret_live:
  "map_of c k = Some e \<Longrightarrow> now < expiration e \<Longrightarrow> get_secret now k c = (Some e, c)"
  by (simp add: get_secret_def)

lemma get_secret_expired:
  "map_of c k = Some e \<Longrightarrow> expiration e \<le> now \<Longrightarrow>
     get_secret now k c = (None, AList.delete k c)"
  by (simp add: get_secret_def)

lemma get_secret_absent: "map_of c k = None \<Longrightarrow> get_secret now k c = (None, c)"
  by (simp add: get_secret_def)

lemma get_secret_Some:
  "fst (get_secret now k c) = Some e \<Longrightarrow> map_of c k = Some e \<and> now < expiration e"
  by (auto simp: get_secret_def split: option.splits if_splits)

lemma distinct_get_secret:
  "distinct (map fst c) \<Longrightarrow> distinct (map fst (snd (get_secret now k c)))"
  by (simp add: get_secret_def AList.distinct_delete split: option.splits)

lemma get_secret_endpoint_absent:
  "map_of (cache w) k = None \<Longrightarrow>
     get_secret_endpoint decrypt_data db_ok now k req w = (Inl (HTTPException 404), w)"
  by (simp add: get_secret_endpoint_def get_secret_absent)

lemma get_secret_endpoint_live:
  assumes "map_of (cache w) k = Some e" and "now < expiration e"
    and "decrypt_data (encrypted_secret e) = Some plain"
  shows "get_secret_endpoint decrypt_data db_ok now k req w =
           (case client req of
              None \<Rightarrow> (Inl AttributeError, w\<lparr>cache := delete_secret k (cache w)\<rparr>)
            | Some address \<Rightarrow>
                (Inr (GetSecretResponce plain),
                 \<lparr>cache = delete_secret k (cache w),
                  logs = log_event db_ok k ''read'' (host address) None (logs w)\<rparr>))"
  using assms by (simp add: get_secret_endpoint_def get_secret_live)

lemma delete_secret_endpoint_pass:
  assumes "map_of (cache w) k = Some e" and "now < expiration e"
    and "\<not> py_bool (passphrase e) \<or> (py_bool supplied \<and> supplied = passphrase e)"
  shows "delete_secret_endpoint db_ok now k req supplied w =
           (case client req of
              None \<Rightarrow> (Inl AttributeError, w\<lparr>cache := delete_secret k (cache w)\<rparr>)
            | Some address \<Rightarrow>
                (Inr DeleteSecretResponse,
                 \<lparr>cache = delete_secret k (cache w),
                  logs = log_event db_ok k ''delete'' (host address) None (logs w)\<rparr>))"
  using assms by (auto simp: delete_secret_endpoint_def get_secret_live)

subsection \<open>Retrieval\<close>



text \<open>
  C2 (expired records are never returned). When the record under a key has
  \<open>expiration \<le> now\<close>, \<open>get_secret\<close> returns \<open>None\<close> and the cache it leaves is the
  old one without that key; and whenever \<open>get_secret\<close> does return a record, it is the
  stored one and \<open>now < expiration\<close> holds for it.
\<close>

theorem expired_never_returned:
  "(map_of c k = Some e \<and> expiration e \<le> now \<longrightarrow>
      fst (get_secret now k c) = None
      \<and> snd (get_secret now k c) = AList.delete k c
      \<and> map_of (snd (get_secret now k c)) k = None)
   \<and> (fst (get_secret now k c) = Some e' \<longrightarrow> map_of c k = Some e' \<and> now < expiration e')"
  using get_secret_Some [of now k c e']
  by (simp add: get_secret_expired AList.delete_conv')

theorem expired_never_returned_witness:
  "map_of (cache sample_world) ''K1'' = Some entry_hello
   \<and> expiration entry_hello \<le> t0 + 300000000
   \<and> fst (get_secret (t0 + 300000000) ''K1'' (cache sample_world)) = None
   \<and> snd (get_secret (t0 + 300000000) ''K1'' (cache sample_world))
       = [(''K2'', entry_x), (''K3'', entry_garbled)]
   \<and> fst (get_secret (t0 + 299999999) ''K1'' (cache sample_world)) = Some entry_hello
   \<and> t0 + 299999999 < expiration entry_hello"
proof -
  have h1: "map_of (cache sample_world) ''K1'' = Some entry_hello"
    by (simp add: sample_defs)
  have h2: "expiration entry_hello \<le> t0 + 300000000"
    by (simp add: sample_defs)
  have h3: "fst (get_secret (t0 + 299999999) ''K1'' (cache sample_world)) = Some entry_hello"
    by (simp add: get_secret_live h1 entry_hello_def)
  have d: "AList.delete ''K1'' (cache sample_world) = [(''K2'', entry_x), (''K3'', entry_garbled)]"
    by (simp add: sample_world_def)
  have expired:
    "fst (get_secret (t0 + 300000000) ''K1'' (cache sample_world)) = None
     \<and> snd (get_secret (t0 + 300000000) ''K1'' (cache sample_world))
         = AList.delete ''K1'' (cache sample_world)"
    using h1 h2
      expired_never_returned [of "cache sample_world" "''K1''" entry_hello "t0 + 300000000" entry_hello]
    by blast
  have live: "t0 + 299999999 < expiration entry_hello"
    using h3
      expired_never_returned [of "cache sample_world" "''K1''" entry_hello "t0 + 299999999" entry_hello]
    by blast
  from expired d have purged:
    "snd (get_secret (t0 + 300000000) ''K1'' (cache sample_world))
       = [(''K2'', entry_x), (''K3'', entry_garbled)]"
    by (simp only:)
  show ?thesis
    using h1 h2 h3 expired purged live by blast
qed
text \<open>
  C10 (a failed decryption consumes nothing). When the cipher raises on the token of a
  stored, unexpired record, \<open>get_secret_endpoint\<close> answers 500 and leaves the whole
  state as it was; a later retrieval of the same key, made before the record expires and
  with a cipher that accepts the token, reaches the record again: it returns the secret
  to a request that carries a client address (and raises \<^verbatim>\<open>AttributeError\<close> for one
  that carries none).
\<close>

theorem decrypt_failure_keeps_record:
  assumes "map_of (cache w) k = Some e" and "now < expiration e"
    and "decrypt_data (encrypted_secret e) = None"
  shows "get_secret_endpoint decrypt_data db_ok now k req w = (Inl (HTTPException 500), w)
     \<and> (now' < expiration e \<and> decrypt_data' (encrypted_secret e) = Some plain \<longrightarrow>
          fst (get_secret_endpoint decrypt_data' db_ok' now' k req'
                 (snd (get_secret_endpoint decrypt_data db_ok now k req w)))
            = (case client req' of
                 None \<Rightarrow> Inl AttributeError
               | Some address \<Rightarrow> Inr (GetSecretResponce plain)))"
proof -
  have "get_secret_endpoint decrypt_data db_ok now k req w = (Inl (HTTPException 500), w)"
    using assms by (simp add: get_secret_endpoint_def get_secret_live)
  then show ?thesis
    using assms(1) by (simp add: get_secret_endpoint_live split: option.split)
qed

theorem decrypt_failure_keeps_record_witness:
  "map_of (cache sample_world) ''K3'' = Some entry_garbled
   \<and> t0 < expiration entry_garbled
   \<and> toy_decrypt (encrypted_secret entry_garbled) = None
   \<and> get_secret_endpoint toy_decrypt True t0 ''K3'' peer sample_world
       = (Inl (HTTPException 500), sample_world)
   \<and> t0 + 5 < expiration entry_garbled
   \<and> Some (encrypted_secret entry_garbled) = Some ''garbled''
   \<and> fst (get_secret_endpoint Some True (t0 + 5) ''K3'' peer
            (snd (get_secret_endpoint toy_decrypt True t0 ''K3'' peer sample_world)))
       = Inr (GetSecretResponce ''garbled'')"
proof -
  let ?first = "get_secret_endpoint toy_decrypt True t0 ''K3'' peer sample_world"
  have h1: "map_of (cache sample_world) ''K3'' = Some entry_garbled"
    by (simp add: sample_defs)
  have h2: "t0 < expiration entry_garbled"
    by (simp add: sample_defs)
  have h3: "toy_decrypt (encrypted_secret entry_garbled) = None"
    by (simp add: sample_defs)
  have h4: "t0 + 5 < expiration entry_garbled"
    by (simp add: sample_defs)
  have h5: "Some (encrypted_secret entry_garbled) = Some ''garbled''"
    by (simp add: sample_defs)
  note inst = decrypt_failure_keeps_record [where decrypt_data = toy_decrypt and db_ok = True
        and req = peer and now' = "t0 + 5" and decrypt_data' = Some and plain = "''garbled''"
        and db_ok' = True and req' = peer, OF h1 h2 h3]
  from inst have a: "?first = (Inl (HTTPException 500), sample_world)"
    by (elim conjE)
  from inst h4 h5 have "fst (get_secret_endpoint Some True (t0 + 5) ''K3'' peer (snd ?first))
            = (case client peer of
                 None \<Rightarrow> Inl AttributeError
               | Some address \<Rightarrow> Inr (GetSecretResponce ''garbled''))"
    by (elim conjE impE) (rule conjI)
  then have b: "fst (get_secret_endpoint Some True (t0 + 5) ''K3'' peer (snd ?first))
            = Inr (GetSecretResponce ''garbled'')"
    by (simp add: peer_def)
  show ?thesis
    by (intro conjI) (rule h1 h2 h3 a h4 h5 b)+
qed


subsection \<open>Creation\<close>

lemma timedelta_seconds_ok:
  assumes "300 \<le> s" and "s \<le> 315537897600"
  shows "timedelta_seconds s = Inr (s * 1000000)"
proof -
  have "0 \<le> s div 86400"
    using assms(1) by (simp add: pos_imp_zdiv_nonneg_iff)
  moreover have "s div 86400 \<le> 315537897600 div 86400"
    using assms(2) by (rule zdiv_mono1) simp
  ultimately show ?thesis
    by (simp add: timedelta_seconds_def)
qed

lemma timedelta_seconds_Inr: "timedelta_seconds s = Inr d \<Longrightarrow> d = s * 1000000"
  by (simp add: timedelta_seconds_def split: if_splits)

lemma datetime_add_Inr: "datetime_add t d = Inr r \<Longrightarrow> r = t + d"
  by (simp add: datetime_add_def split: if_splits)

lemma add_secret_ok:
  assumes "0 \<le> now" and "now + max ttl_seconds 300 * 1000000 \<le> datetime_max"
  shows "add_secret now k enc p ttl_seconds c =
           Inr (AList.update k \<lparr>encrypted_secret = enc, passphrase = p,
                  expiration = now + max ttl_seconds 300 * 1000000\<rparr> c)"
proof -
  have small: "max ttl_seconds 300 \<le> 315537897600" and big: "300 \<le> max ttl_seconds 300"
    using assms by (simp_all add: datetime_max_def)
  then have "timedelta_seconds (max ttl_seconds 300) = Inr (max ttl_seconds 300 * 1000000)"
    by (simp add: timedelta_seconds_ok)
  moreover have "datetime_add now (max ttl_seconds 300 * 1000000)
      = Inr (now + max ttl_seconds 300 * 1000000)"
    using assms big by (simp add: datetime_add_def)
  ultimately show ?thesis
    by (simp add: add_secret_def)
qed

lemma add_secret_overflow:
  assumes "\<not> now + max ttl_seconds 300 * 1000000 \<le> datetime_max"
  shows "add_secret now k enc p ttl_seconds c = Inl OverflowError"
  using assms
  by (simp add: add_secret_def timedelta_seconds_def datetime_add_def Let_def)

lemma add_secret_Inr:
  assumes "add_secret now k enc p ttl_seconds c = Inr c'"
  shows "c' = AList.update k \<lparr>encrypted_secret = enc, passphrase = p,
                  expiration = now + max ttl_seconds 300 * 1000000\<rparr> c"
  using assms
  by (auto simp: add_secret_def Let_def split: sum.splits
      dest!: timedelta_seconds_Inr datetime_add_Inr)

lemma create_secret_ok:
  assumes "0 \<le> now" and "now + max (ttl payload) 300 * 1000000 \<le> datetime_max"
    and "encrypt_data (secret payload) = Inr token"
  shows "fst (create_secret encrypt_data db_ok now uuid4 req payload w)
           = (case client req of
                None \<Rightarrow> Inl AttributeError
              | Some address \<Rightarrow> Inr (CreateSecretResponse uuid4))
         \<and> cache (snd (create_secret encrypt_data db_ok now uuid4 req payload w))
           = AList.update uuid4
               \<lparr>encrypted_secret = token,
                passphrase = Some (payload_passphrase payload),
                expiration = now + max (ttl payload) 300 * 1000000\<rparr> (cache w)"
proof -
  have "max (max (ttl payload) 300) 300 = max (ttl payload) 300"
    by simp
  with assms(1,2) have "add_secret now uuid4 token
        (Some (payload_passphrase payload)) (max (ttl payload) 300) (cache w)
      = Inr (AList.update uuid4
               \<lparr>encrypted_secret = token,
                passphrase = Some (payload_passphrase payload),
                expiration = now + max (ttl payload) 300 * 1000000\<rparr> (cache w))"
    using add_secret_ok [of now "max (ttl payload) 300"] by simp
  then show ?thesis
    by (simp add: create_secret_def Let_def assms(3) split: option.split)
qed

lemma create_secret_overflow:
  assumes "\<not> now + max (ttl payload) 300 * 1000000 \<le> datetime_max"
    and "encrypt_data (secret payload) = Inr token"
  shows "create_secret encrypt_data db_ok now uuid4 req payload w = (Inl OverflowError, w)"
proof -
  have "max (max (ttl payload) 300) 300 = max (ttl payload) 300"
    by simp
  with assms(1) have "add_secret now uuid4 token
        (Some (payload_passphrase payload)) (max (ttl payload) 300) (cache w)
      = Inl OverflowError"
    using add_secret_overflow [of now "max (ttl payload) 300"] by simp
  then show ?thesis
    by (simp add: create_secret_def Let_def assms(2))
qed

lemma create_secret_encrypt_error:
  "encrypt_data (secret payload) = Inl e \<Longrightarrow>
     create_secret encrypt_data db_ok now uuid4 req payload w = (Inl e, w)"
  by (simp add: create_secret_def)

lemma length_update:
  "length (AList.update k v al) = (if k \<in> set (map fst al) then length al else Suc (length al))"
  by (induction al) auto

text \<open>
  C3 (floor TTL), as amended. For every call of \<open>add_secret\<close> made at a valid clock
  reading: if \<open>now\<close> plus \<open>max ttl 300\<close> seconds is still a \<^verbatim>\<open>datetime\<close> (not after
  9999-12-31T23:59:59.999999), the call succeeds and the record it stores expires at
  exactly that time; for a TTL below 300 that is \<open>now\<close> plus 300 seconds, and
  \<open>get_secret\<close> finds the stored record at every time before \<open>now\<close> plus 300
  seconds. Otherwise the call raises \<^verbatim>\<open>OverflowError\<close> and stores nothing.
  \<open>create_secret\<close>, once the cipher has produced the token, leaves the cache with the
  same record in the first case and unchanged in the second.
\<close>

theorem floor_ttl:
  assumes "0 \<le> now"
  shows "add_secret now k enc p ttl_seconds c
           = (if now + max ttl_seconds 300 * 1000000 \<le> datetime_max
              then Inr (AList.update k \<lparr>encrypted_secret = enc, passphrase = p,
                          expiration = now + max ttl_seconds 300 * 1000000\<rparr> c)
              else Inl OverflowError)
     \<and> (ttl_seconds < 300 \<and> now + 300000000 \<le> datetime_max \<longrightarrow>
          add_secret now k enc p ttl_seconds c
            = Inr (AList.update k \<lparr>encrypted_secret = enc, passphrase = p,
                     expiration = now + 300000000\<rparr> c))
     \<and> (add_secret now k enc p ttl_seconds c = Inr c' \<and> now' < now + 300000000 \<longrightarrow>
          fst (get_secret now' k c')
            = Some \<lparr>encrypted_secret = enc, passphrase = p,
                    expiration = now + max ttl_seconds 300 * 1000000\<rparr>)
     \<and> (ttl payload = ttl_seconds \<and> encrypt_data (secret payload) = Inr token \<longrightarrow>
          cache (snd (create_secret encrypt_data db_ok now k req payload w))
            = (if now + max ttl_seconds 300 * 1000000 \<le> datetime_max
               then AList.update k
                      \<lparr>encrypted_secret = token,
                       passphrase = Some (payload_passphrase payload),
                       expiration = now + max ttl_seconds 300 * 1000000\<rparr> (cache w)
               else cache w))"
proof -
  let ?e = "\<lparr>encrypted_secret = enc, passphrase = p,
             expiration = now + max ttl_seconds 300 * 1000000\<rparr>"
  have exact: "add_secret now k enc p ttl_seconds c
           = (if now + max ttl_seconds 300 * 1000000 \<le> datetime_max
              then Inr (AList.update k ?e c) else Inl OverflowError)"
    using assms by (simp add: add_secret_ok add_secret_overflow)
  have low: "add_secret now k enc p ttl_seconds c
            = Inr (AList.update k \<lparr>encrypted_secret = enc, passphrase = p,
                     expiration = now + 300000000\<rparr> c)"
    if "ttl_seconds < 300" and "now + 300000000 \<le> datetime_max"
    using that assms add_secret_ok [of now ttl_seconds k enc p c] by simp
  have found: "fst (get_secret now' k c') = Some ?e"
    if stored: "add_secret now k enc p ttl_seconds c = Inr c'" and early: "now' < now + 300000000"
  proof -
    from stored have "c' = AList.update k ?e c"
      by (rule add_secret_Inr)
    then have "map_of c' k = Some ?e"
      by (simp add: AList.update_conv')
    moreover have "now' < expiration ?e"
      using early by simp
    ultimately show ?thesis
      by (simp add: get_secret_live)
  qed
  have created: "cache (snd (create_secret encrypt_data db_ok now k req payload w))
            = (if now + max ttl_seconds 300 * 1000000 \<le> datetime_max
               then AList.update k
                      \<lparr>encrypted_secret = token,
                       passphrase = Some (payload_passphrase payload),
                       expiration = now + max ttl_seconds 300 * 1000000\<rparr> (cache w)
               else cache w)"
    if "ttl payload = ttl_seconds" and "encrypt_data (secret payload) = Inr token"
    using that assms
      create_secret_ok [of now payload encrypt_data token db_ok k req w]
      create_secret_overflow [of now payload encrypt_data token db_ok k req w]
    by auto
  show ?thesis
    using exact low found created by (intro conjI impI) auto
qed

theorem floor_ttl_witness:
  "0 \<le> t0
   \<and> (10::int) < 300
   \<and> t0 + 300000000 \<le> datetime_max
   \<and> add_secret t0 ''K4'' ''enc:y'' (Some ''pw1'') 10 []
       = Inr [(''K4'', \<lparr>encrypted_secret = ''enc:y'', passphrase = Some ''pw1'',
                        expiration = t0 + 300000000\<rparr>)]
   \<and> t0 + 299000000 < t0 + 300000000
   \<and> fst (get_secret (t0 + 299000000) ''K4''
            [(''K4'', \<lparr>encrypted_secret = ''enc:y'', passphrase = Some ''pw1'',
                        expiration = t0 + 300000000\<rparr>)])
       = Some \<lparr>encrypted_secret = ''enc:y'', passphrase = Some ''pw1'',
               expiration = t0 + 300000000\<rparr>
   \<and> toy_encrypt ''y'' = Inr ''enc:y''
   \<and> map_of (cache (snd (create_secret toy_encrypt True t0 ''K4'' peer
                \<lparr>secret = ''y'', payload_passphrase = ''pw1'', ttl = 10\<rparr> sample_world))) ''K4''
       = Some \<lparr>encrypted_secret = ''enc:y'', passphrase = Some ''pw1'',
               expiration = t0 + 300000000\<rparr>"
proof -
  let ?payload = "\<lparr>secret = ''y'', payload_passphrase = ''pw1'', ttl = 10\<rparr>"
  let ?e = "\<lparr>encrypted_secret = ''enc:y'', passphrase = Some ''pw1'',
             expiration = t0 + 300000000\<rparr>"
  have h1: "0 \<le> t0"
    by (simp add: t0_def)
  have h2: "(10::int) < 300"
    by simp
  have h3: "t0 + 300000000 \<le> datetime_max"
    by (simp add: t0_def datetime_max_def)
  have h4: "t0 + 299000000 < t0 + 300000000"
    by simp
  have h5: "toy_encrypt ''y'' = Inr ''enc:y''"
    by (simp add: toy_encrypt_def)
  note inst = floor_ttl [OF h1, where k = "''K4''" and enc = "''enc:y''" and p = "Some ''pw1''"
      and c = "[]" and ttl_seconds = 10 and c' = "[(''K4'', ?e)]" and now' = "t0 + 299000000"
      and payload = ?payload and encrypt_data = toy_encrypt and token = "''enc:y''"
      and db_ok = True and req = peer and w = sample_world]
  have h6: "ttl ?payload = 10"
    by simp
  have h7: "toy_encrypt (secret ?payload) = Inr ''enc:y''"
    by (simp add: toy_encrypt_def)
  have fits: "t0 + max 10 300 * 1000000 \<le> datetime_max"
    by (simp add: t0_def datetime_max_def)
  note low = inst [THEN conjunct2, THEN conjunct1, rule_format, OF conjI [OF h2 h3]]
  from low have a: "add_secret t0 ''K4'' ''enc:y'' (Some ''pw1'') 10 [] = Inr [(''K4'', ?e)]"
    by simp
  note found = inst [THEN conjunct2, THEN conjunct2, THEN conjunct1, rule_format,
      OF conjI [OF a h4]]
  from found have b: "fst (get_secret (t0 + 299000000) ''K4'' [(''K4'', ?e)]) = Some ?e"
    by simp
  note created = inst [THEN conjunct2, THEN conjunct2, THEN conjunct2, rule_format,
      OF conjI [OF h6 h7]]
  from created fits have
    "cache (snd (create_secret toy_encrypt True t0 ''K4'' peer ?payload sample_world))
       = AList.update ''K4'' ?e (cache sample_world)"
    by simp
  then have c: "map_of (cache (snd (create_secret toy_encrypt True t0 ''K4'' peer ?payload
                  sample_world))) ''K4'' = Some ?e"
    by (simp add: AList.update_conv')
  show ?thesis
    by (intro conjI) (rule h1 h2 h3 a h4 b h5 c)+
qed

theorem floor_ttl_counterexample:
  "add_secret t0 ''K4'' ''enc:y'' (Some ''pw1'') 1000000000000 [] = Inl OverflowError
   \<and> create_secret toy_encrypt True t0 ''K4'' peer
        \<lparr>secret = ''y'', payload_passphrase = ''pw1'', ttl = 1000000000000\<rparr> sample_world
       = (Inl OverflowError, sample_world)"
  by (simp add: create_secret_def add_secret_def timedelta_seconds_def datetime_add_def
      datetime_max_def t0_def toy_encrypt_def)

text \<open>
  C6 (key collisions), as amended. The keys of the cache stay pairwise distinct, but
  \<open>add_secret\<close> makes no collision check: whenever it returns, the cache holds the new
  record under the key, every other key keeps its record, and a record that was already
  stored under the key has been replaced in place, the number of records unchanged.
  Nothing is rejected and no key is drawn again.
\<close>

theorem add_secret_overwrites:
  assumes "distinct (map fst c)" and "add_secret now k enc p ttl_seconds c = Inr c'"
  shows "distinct (map fst c')
     \<and> map_of c' k = Some \<lparr>encrypted_secret = enc, passphrase = p,
                            expiration = now + max ttl_seconds 300 * 1000000\<rparr>
     \<and> (\<forall>k'. k' \<noteq> k \<longrightarrow> map_of c' k' = map_of c k')
     \<and> length c' = (if k \<in> set (map fst c) then length c else Suc (length c))"
proof -
  from assms(2) have c': "c' = AList.update k \<lparr>encrypted_secret = enc, passphrase = p,
                  expiration = now + max ttl_seconds 300 * 1000000\<rparr> c"
    by (rule add_secret_Inr)
  have "distinct (map fst c')"
    using assms(1) by (simp add: c' AList.distinct_update)
  moreover have "map_of c' k = Some \<lparr>encrypted_secret = enc, passphrase = p,
                            expiration = now + max ttl_seconds 300 * 1000000\<rparr>"
    by (simp add: c' AList.update_conv')
  moreover have "\<forall>k'. k' \<noteq> k \<longrightarrow> map_of c' k' = map_of c k'"
    by (simp add: c' AList.update_conv')
  moreover have "length c' = (if k \<in> set (map fst c) then length c else Suc (length c))"
    unfolding c' by (rule length_update)
  ultimately show ?thesis
    by blast
qed

theorem add_secret_overwrites_witness:
  "distinct (map fst (cache sample_world))
   \<and> add_secret t0 ''K2'' ''enc:other'' (Some ''pw2'') 300 (cache sample_world)
       = Inr [(''K1'', entry_hello),
              (''K2'', \<lparr>encrypted_secret = ''enc:other'', passphrase = Some ''pw2'',
                        expiration = t0 + 300000000\<rparr>),
              (''K3'', entry_garbled)]
   \<and> map_of [(''K1'', entry_hello),
              (''K2'', \<lparr>encrypted_secret = ''enc:other'', passphrase = Some ''pw2'',
                        expiration = t0 + 300000000\<rparr>),
              (''K3'', entry_garbled)] ''K2''
       = Some \<lparr>encrypted_secret = ''enc:other'', passphrase = Some ''pw2'',
               expiration = t0 + max 300 300 * 1000000\<rparr>
   \<and> ''K1'' \<noteq> ''K2''
   \<and> map_of [(''K1'', entry_hello),
              (''K2'', \<lparr>encrypted_secret = ''enc:other'', passphrase = Some ''pw2'',
                        expiration = t0 + 300000000\<rparr>),
              (''K3'', entry_garbled)] ''K1''
       = map_of (cache sample_world) ''K1''"
proof -
  let ?c' = "[(''K1'', entry_hello),
              (''K2'', \<lparr>encrypted_secret = ''enc:other'', passphrase = Some ''pw2'',
                        expiration = t0 + 300000000\<rparr>),
              (''K3'', entry_garbled)]"
  have h1: "distinct (map fst (cache sample_world))"
    by (simp add: sample_world_def)
  have h2: "add_secret t0 ''K2'' ''enc:other'' (Some ''pw2'') 300 (cache sample_world) = Inr ?c'"
    by (simp add: add_secret_def timedelta_seconds_def datetime_add_def datetime_max_def
        t0_def sample_world_def)
  have h3: "''K1'' \<noteq> ''K2''"
    by simp
  note inst = add_secret_overwrites [OF h1 h2]
  from inst have a: "map_of ?c' ''K2''
       = Some \<lparr>encrypted_secret = ''enc:other'', passphrase = Some ''pw2'',
               expiration = t0 + max 300 300 * 1000000\<rparr>"
    by (elim conjE)
  from inst have others: "\<forall>k'. k' \<noteq> ''K2'' \<longrightarrow> map_of ?c' k' = map_of (cache sample_world) k'"
    by (elim conjE)
  note b = others [rule_format, OF h3]
  show ?thesis
    by (intro conjI) (rule h1 h2 h3 a b)+
qed

theorem add_secret_overwrites_counterexample:
  "map_of (cache sample_world) ''K2'' = Some entry_x
   \<and> add_secret t0 ''K2'' ''enc:other'' (Some ''pw2'') 300 (cache sample_world)
       = Inr [(''K1'', entry_hello),
              (''K2'', \<lparr>encrypted_secret = ''enc:other'', passphrase = Some ''pw2'',
                        expiration = t0 + 300000000\<rparr>),
              (''K3'', entry_garbled)]
   \<and> entry_x \<noteq> \<lparr>encrypted_secret = ''enc:other'', passphrase = Some ''pw2'',
                     expiration = t0 + 300000000\<rparr>
   \<and> fst (create_secret toy_encrypt True t0 ''K2'' peer
            \<lparr>secret = ''other'', payload_passphrase = ''pw2'', ttl = 300\<rparr> sample_world)
       = Inr (CreateSecretResponse ''K2'')
   \<and> cache (snd (create_secret toy_encrypt True t0 ''K2'' peer
            \<lparr>secret = ''other'', payload_passphrase = ''pw2'', ttl = 300\<rparr> sample_world))
       = [(''K1'', entry_hello),
          (''K2'', \<lparr>encrypted_secret = ''enc:other'', passphrase = Some ''pw2'',
                    expiration = t0 + 300000000\<rparr>),
          (''K3'', entry_garbled)]"
proof -
  let ?payload = "\<lparr>secret = ''other'', payload_passphrase = ''pw2'', ttl = 300\<rparr>"
  have direct:
    "map_of (cache sample_world) ''K2'' = Some entry_x
     \<and> add_secret t0 ''K2'' ''enc:other'' (Some ''pw2'') 300 (cache sample_world)
         = Inr [(''K1'', entry_hello),
                (''K2'', \<lparr>encrypted_secret = ''enc:other'', passphrase = Some ''pw2'',
                          expiration = t0 + 300000000\<rparr>),
                (''K3'', entry_garbled)]
     \<and> entry_x \<noteq> \<lparr>encrypted_secret = ''enc:other'', passphrase = Some ''pw2'',
                       expiration = t0 + 300000000\<rparr>"
    by (simp add: add_secret_def timedelta_seconds_def datetime_add_def
        datetime_max_def sample_defs)
  have "0 \<le> t0" and "t0 + max (ttl ?payload) 300 * 1000000 \<le> datetime_max"
    and "toy_encrypt (secret ?payload) = Inr ''enc:other''"
    by (simp_all add: t0_def datetime_max_def toy_encrypt_def)
  from create_secret_ok [where encrypt_data = toy_encrypt and payload = ?payload
      and token = "''enc:other''" and db_ok = True and ?uuid4.0 = "''K2''" and req = peer
      and w = sample_world, OF this]
  have handler:
    "fst (create_secret toy_encrypt True t0 ''K2'' peer ?payload sample_world)
       = Inr (CreateSecretResponse ''K2'')
     \<and> cache (snd (create_secret toy_encrypt True t0 ''K2'' peer ?payload sample_world))
       = [(''K1'', entry_hello),
          (''K2'', \<lparr>encrypted_secret = ''enc:other'', passphrase = Some ''pw2'',
                    expiration = t0 + 300000000\<rparr>),
          (''K3'', entry_garbled)]"
    by (simp add: sample_world_def peer_def)
  from direct handler show ?thesis
    by (elim conjE) (intro conjI)
qed


subsection \<open>Deletion\<close>

lemma delete_match_result:
  assumes "map_of (cache w) k = Some e" and "now < expiration e"
    and "passphrase e = Some p" and "supplied = Some p"
  shows "delete_secret_endpoint db_ok now k req supplied w =
           (case client req of
              None \<Rightarrow> (Inl AttributeError, w\<lparr>cache := delete_secret k (cache w)\<rparr>)
            | Some address \<Rightarrow>
                (Inr DeleteSecretResponse,
                 \<lparr>cache = delete_secret k (cache w),
                  logs = log_event db_ok k ''delete'' (host address) None (logs w)\<rparr>))
     \<and> map_of (cache (snd (delete_secret_endpoint db_ok now k req supplied w))) k = None
     \<and> get_secret_endpoint decrypt_data db_ok' now' k req'
           (snd (delete_secret_endpoint db_ok now k req supplied w))
         = (Inl (HTTPException 404), snd (delete_secret_endpoint db_ok now k req supplied w))"
proof -
  let ?call = "delete_secret_endpoint db_ok now k req supplied w"
  have pass: "\<not> py_bool (passphrase e) \<or> (py_bool supplied \<and> supplied = passphrase e)"
    using assms(3,4) by (simp add: py_bool_def)
  note result = delete_secret_endpoint_pass [OF assms(1,2) pass, of db_ok req]
  have gone: "map_of (cache (snd ?call)) k = None"
    by (simp add: result map_of_delete_secret split: option.split)
  from gone have "get_secret_endpoint decrypt_data db_ok' now' k req' (snd ?call)
      = (Inl (HTTPException 404), snd ?call)"
    by (rule get_secret_endpoint_absent)
  with result gone show ?thesis
    by (intro conjI)
qed

lemma empty_passphrase_result:
  assumes "map_of (cache w) k = Some e" and "now < expiration e"
    and "passphrase e = Some []"
  shows "delete_secret_endpoint db_ok now k req supplied w =
           (case client req of
              None \<Rightarrow> (Inl AttributeError, w\<lparr>cache := delete_secret k (cache w)\<rparr>)
            | Some address \<Rightarrow>
                (Inr DeleteSecretResponse,
                 \<lparr>cache = delete_secret k (cache w),
                  logs = log_event db_ok k ''delete'' (host address) None (logs w)\<rparr>))
     \<and> fst (delete_secret_endpoint db_ok now k req supplied w) \<noteq> Inl (HTTPException 403)
     \<and> map_of (cache (snd (delete_secret_endpoint db_ok now k req supplied w))) k = None"
proof -
  let ?call = "delete_secret_endpoint db_ok now k req supplied w"
  have pass: "\<not> py_bool (passphrase e) \<or> (py_bool supplied \<and> supplied = passphrase e)"
    using assms(3) by (simp add: py_bool_def)
  note result = delete_secret_endpoint_pass [OF assms(1,2) pass, of db_ok req]
  have "fst ?call \<noteq> Inl (HTTPException 403)"
    by (simp add: result split: option.split)
  moreover have "map_of (cache (snd ?call)) k = None"
    by (simp add: result map_of_delete_secret split: option.split)
  ultimately show ?thesis
    using result by (intro conjI)
qed

text \<open>
  C4 (a wrong passphrase changes nothing), as amended. For a stored, unexpired record
  whose passphrase is not empty, \<open>delete_secret_endpoint\<close> with any supplied value
  other than exactly that passphrase, or with none, answers 403 and returns the state
  unchanged, cache and audit table alike, whatever the request; a retrieval of the key
  made afterwards, before the record expires, from a request that carries a client
  address, still returns the secret. (A record stored with the empty passphrase is not
  protected: see C9.)
\<close>

theorem delete_mismatch_no_change:
  assumes "map_of (cache w) k = Some e" and "now < expiration e"
    and "passphrase e = Some p" and "p \<noteq> []" and "supplied \<noteq> Some p"
  shows "delete_secret_endpoint db_ok now k req supplied w = (Inl (HTTPException 403), w)
     \<and> (now' < expiration e \<and> decrypt_data (encrypted_secret e) = Some plain
          \<and> client req' = Some address \<longrightarrow>
          fst (get_secret_endpoint decrypt_data db_ok' now' k req'
                 (snd (delete_secret_endpoint db_ok now k req supplied w)))
            = Inr (GetSecretResponce plain))"
proof -
  have "delete_secret_endpoint db_ok now k req supplied w = (Inl (HTTPException 403), w)"
    using assms by (auto simp: delete_secret_endpoint_def get_secret_live py_bool_def)
  then show ?thesis
    using assms(1) by (simp add: get_secret_endpoint_live)
qed

theorem delete_mismatch_no_change_witness:
  "map_of (cache sample_world) ''K2'' = Some entry_x
   \<and> t0 < expiration entry_x
   \<and> passphrase entry_x = Some ''pw1''
   \<and> ''pw1'' \<noteq> []
   \<and> Some ''wrong'' \<noteq> Some ''pw1''
   \<and> delete_secret_endpoint True t0 ''K2'' no_peer (Some ''wrong'') sample_world
       = (Inl (HTTPException 403), sample_world)
   \<and> t0 + 7 < expiration entry_x
   \<and> toy_decrypt (encrypted_secret entry_x) = Some ''x''
   \<and> client peer = Some (Address ''127.0.0.1'' 50000)
   \<and> fst (get_secret_endpoint toy_decrypt True (t0 + 7) ''K2'' peer
            (snd (delete_secret_endpoint True t0 ''K2'' no_peer (Some ''wrong'') sample_world)))
       = Inr (GetSecretResponce ''x'')"
proof -
  have h1: "map_of (cache sample_world) ''K2'' = Some entry_x"
    by (simp add: sample_defs)
  have h2: "t0 < expiration entry_x"
    by (simp add: sample_defs)
  have h3: "passphrase entry_x = Some ''pw1''"
    by (simp add: sample_defs)
  have h4: "''pw1'' \<noteq> []"
    by simp
  have h5: "Some ''wrong'' \<noteq> Some ''pw1''"
    by simp
  have h6: "t0 + 7 < expiration entry_x"
    by (simp add: sample_defs)
  have h7: "toy_decrypt (encrypted_secret entry_x) = Some ''x''"
    by (simp add: sample_defs)
  have h8: "client peer = Some (Address ''127.0.0.1'' 50000)"
    by (simp add: peer_def)
  note inst = delete_mismatch_no_change [where db_ok = True and req = no_peer
        and now' = "t0 + 7" and decrypt_data = toy_decrypt and plain = "''x''"
        and db_ok' = True and req' = peer and address = "Address ''127.0.0.1'' 50000",
        OF h1 h2 h3 h4 h5]
  note a = inst [THEN conjunct1]
  note b = inst [THEN conjunct2, rule_format, OF conjI [OF h6 conjI [OF h7 h8]]]
  show ?thesis
    by (intro conjI) (rule h1 h2 h3 h4 h5 a h6 h7 h8 b)+
qed

theorem delete_mismatch_no_change_counterexample:
  "cache (snd (create_secret toy_encrypt True t0 ''K1'' peer
                 \<lparr>secret = ''hello'', payload_passphrase = [], ttl = 60\<rparr>
                 \<lparr>cache = [], logs = []\<rparr>))
     = [(''K1'', entry_hello)]
   \<and> map_of (cache sample_world) ''K1'' = Some entry_hello
   \<and> t0 < expiration entry_hello
   \<and> Some ''guess'' \<noteq> passphrase entry_hello
   \<and> fst (delete_secret_endpoint True t0 ''K1'' peer (Some ''guess'') sample_world)
       = Inr DeleteSecretResponse
   \<and> fst (delete_secret_endpoint True t0 ''K1'' peer (Some ''guess'') sample_world)
       \<noteq> Inl (HTTPException 403)
   \<and> cache (snd (delete_secret_endpoint True t0 ''K1'' peer (Some ''guess'') sample_world))
       = [(''K2'', entry_x), (''K3'', entry_garbled)]"
proof -
  let ?payload = "\<lparr>secret = ''hello'', payload_passphrase = [], ttl = 60\<rparr>"
  let ?empty = "\<lparr>cache = [], logs = []\<rparr>"
  have "0 \<le> t0" and "t0 + max (ttl ?payload) 300 * 1000000 \<le> datetime_max"
    and "toy_encrypt (secret ?payload) = Inr ''enc:hello''"
    by (simp_all add: t0_def datetime_max_def toy_encrypt_def)
  from create_secret_ok [where encrypt_data = toy_encrypt and payload = ?payload
      and token = "''enc:hello''" and db_ok = True and ?uuid4.0 = "''K1''" and req = peer
      and w = ?empty, OF this]
  have created: "cache (snd (create_secret toy_encrypt True t0 ''K1'' peer ?payload ?empty))
     = [(''K1'', entry_hello)]"
    by (simp add: entry_hello_def)
  have h1: "map_of (cache sample_world) ''K1'' = Some entry_hello"
    by (simp add: sample_defs)
  have h2: "t0 < expiration entry_hello"
    by (simp add: sample_defs)
  have h3: "passphrase entry_hello = Some []"
    by (simp add: sample_defs)
  have differs: "Some ''guess'' \<noteq> passphrase entry_hello"
    by (simp add: h3)
  note result = empty_passphrase_result [OF h1 h2 h3, of True peer "Some ''guess''"]
  have call: "delete_secret_endpoint True t0 ''K1'' peer (Some ''guess'') sample_world =
      (Inr DeleteSecretResponse,
       \<lparr>cache = delete_secret ''K1'' (cache sample_world),
        logs = log_event True ''K1'' ''delete'' ''127.0.0.1'' None (logs sample_world)\<rparr>)"
    by (subst result [THEN conjunct1]) (simp add: peer_def)
  have a: "fst (delete_secret_endpoint True t0 ''K1'' peer (Some ''guess'') sample_world)
       = Inr DeleteSecretResponse"
    by (simp add: call)
  have b: "fst (delete_secret_endpoint True t0 ''K1'' peer (Some ''guess'') sample_world)
       \<noteq> Inl (HTTPException 403)"
    by (simp add: call)
  have c: "cache (snd (delete_secret_endpoint True t0 ''K1'' peer (Some ''guess'') sample_world))
       = [(''K2'', entry_x), (''K3'', entry_garbled)]"
    by (subst call) (simp add: delete_secret_def sample_world_def)
  show ?thesis
    by (intro conjI) (rule created h1 h2 differs a b c)+
qed

text \<open>
  C5 (deletion with the matching passphrase): where the code departs from the claim. For
  the record \<open>K2\<close>, stored with the passphrase \<open>pw1\<close> and unexpired, a deletion
  request with exactly that passphrase but without a client address removes the record
  and then raises \<^verbatim>\<open>AttributeError\<close>: the deletion response is not returned. The same
  request with a client address answers with the deletion response and writes the audit
  row; in both cases a retrieval of \<open>K2\<close> afterwards answers 404.
\<close>

theorem delete_match_without_client:
  "map_of (cache sample_world) ''K2'' = Some entry_x
   \<and> t0 < expiration entry_x
   \<and> passphrase entry_x = Some ''pw1''
   \<and> delete_secret_endpoint True t0 ''K2'' no_peer (Some ''pw1'') sample_world
       = (Inl AttributeError,
          \<lparr>cache = [(''K1'', entry_hello), (''K3'', entry_garbled)], logs = []\<rparr>)
   \<and> delete_secret_endpoint True t0 ''K2'' peer (Some ''pw1'') sample_world
       = (Inr DeleteSecretResponse,
          \<lparr>cache = [(''K1'', entry_hello), (''K3'', entry_garbled)],
           logs = [\<lparr>log_secret_key = ''K2'', action = ''delete'',
                    ip_address = ''127.0.0.1'', details = None\<rparr>]\<rparr>)
   \<and> fst (get_secret_endpoint toy_decrypt True (t0 + 1) ''K2'' peer
            (snd (delete_secret_endpoint True t0 ''K2'' no_peer (Some ''pw1'') sample_world)))
       = Inl (HTTPException 404)
   \<and> fst (get_secret_endpoint toy_decrypt True (t0 + 1) ''K2'' peer
            (snd (delete_secret_endpoint True t0 ''K2'' peer (Some ''pw1'') sample_world)))
       = Inl (HTTPException 404)"
proof -
  have h1: "map_of (cache sample_world) ''K2'' = Some entry_x"
    by (simp add: sample_defs)
  have h2: "t0 < expiration entry_x"
    by (simp add: sample_defs)
  have h3: "passphrase entry_x = Some ''pw1''"
    by (simp add: sample_defs)
  have del: "delete_secret ''K2'' (cache sample_world)
      = [(''K1'', entry_hello), (''K3'', entry_garbled)]"
    by (simp add: delete_secret_def sample_world_def)
  note bare = delete_match_result [OF h1 h2 h3 refl, where db_ok = True and req = no_peer
      and decrypt_data = toy_decrypt and db_ok' = True and now' = "t0 + 1" and req' = peer]
  note full = delete_match_result [OF h1 h2 h3 refl, where db_ok = True and req = peer
      and decrypt_data = toy_decrypt and db_ok' = True and now' = "t0 + 1" and req' = peer]
  have a: "delete_secret_endpoint True t0 ''K2'' no_peer (Some ''pw1'') sample_world
       = (Inl AttributeError,
          \<lparr>cache = [(''K1'', entry_hello), (''K3'', entry_garbled)], logs = []\<rparr>)"
    by (subst bare [THEN conjunct1]) (simp add: no_peer_def del, simp add: sample_world_def)
  have b: "delete_secret_endpoint True t0 ''K2'' peer (Some ''pw1'') sample_world
       = (Inr DeleteSecretResponse,
          \<lparr>cache = [(''K1'', entry_hello), (''K3'', entry_garbled)],
           logs = [\<lparr>log_secret_key = ''K2'', action = ''delete'',
                    ip_address = ''127.0.0.1'', details = None\<rparr>]\<rparr>)"
    by (subst full [THEN conjunct1]) (simp add: peer_def del log_event_def, simp add: sample_world_def)
  have c: "fst (get_secret_endpoint toy_decrypt True (t0 + 1) ''K2'' peer
            (snd (delete_secret_endpoint True t0 ''K2'' no_peer (Some ''pw1'') sample_world)))
       = Inl (HTTPException 404)"
    by (subst bare [THEN conjunct2, THEN conjunct2]) (simp only: fst_conv)
  have d: "fst (get_secret_endpoint toy_decrypt True (t0 + 1) ''K2'' peer
            (snd (delete_secret_endpoint True t0 ''K2'' peer (Some ''pw1'') sample_world)))
       = Inl (HTTPException 404)"
    by (subst full [THEN conjunct2, THEN conjunct2]) (simp only: fst_conv)
  show ?thesis
    by (intro conjI) (rule h1 h2 h3 a b c d)+
qed

theorem delete_match_without_client_witness:
  "fst (delete_secret_endpoint True t0 ''K2'' no_peer (Some ''pw1'') sample_world)
     = Inl AttributeError
   \<and> map_of (cache (snd (delete_secret_endpoint True t0 ''K2'' no_peer (Some ''pw1'')
                            sample_world))) ''K2'' = None
   \<and> map_of (cache sample_world) ''K2'' = Some entry_x"
proof -
  note call = delete_match_without_client [THEN conjunct2, THEN conjunct2, THEN conjunct2,
      THEN conjunct1]
  have a: "fst (delete_secret_endpoint True t0 ''K2'' no_peer (Some ''pw1'') sample_world)
     = Inl AttributeError"
    by (subst call) simp
  have b: "map_of (cache (snd (delete_secret_endpoint True t0 ''K2'' no_peer (Some ''pw1'')
                            sample_world))) ''K2'' = None"
    by (subst call) simp
  note c = delete_match_without_client [THEN conjunct1]
  show ?thesis
    by (intro conjI) (rule a b c)+
qed

text \<open>
  C9 (an empty passphrase protects nothing): where the code departs from the claim. The
  record \<open>K1\<close> was stored with the empty passphrase and is unexpired. The passphrase
  check is skipped for it, so no deletion request is answered 403, and a request with a
  client address is answered with the deletion response whatever passphrase it supplies.
  A request without a client address, however, has the record removed and then raises
  \<^verbatim>\<open>AttributeError\<close>: the deletion response is not returned.
\<close>

theorem empty_passphrase_without_client:
  "map_of (cache sample_world) ''K1'' = Some entry_hello
   \<and> t0 < expiration entry_hello
   \<and> passphrase entry_hello = Some []
   \<and> delete_secret_endpoint True t0 ''K1'' no_peer None sample_world
       = (Inl AttributeError,
          \<lparr>cache = [(''K2'', entry_x), (''K3'', entry_garbled)], logs = []\<rparr>)
   \<and> fst (delete_secret_endpoint True t0 ''K1'' peer None sample_world)
       = Inr DeleteSecretResponse
   \<and> fst (delete_secret_endpoint True t0 ''K1'' peer (Some ''guess'') sample_world)
       = Inr DeleteSecretResponse"
proof -
  have h1: "map_of (cache sample_world) ''K1'' = Some entry_hello"
    by (simp add: sample_defs)
  have h2: "t0 < expiration entry_hello"
    by (simp add: sample_defs)
  have h3: "passphrase entry_hello = Some []"
    by (simp add: sample_defs)
  have del: "delete_secret ''K1'' (cache sample_world)
      = [(''K2'', entry_x), (''K3'', entry_garbled)]"
    by (simp add: delete_secret_def sample_world_def)
  note bare = empty_passphrase_result [OF h1 h2 h3, of True no_peer None, THEN conjunct1]
  note none = empty_passphrase_result [OF h1 h2 h3, of True peer None, THEN conjunct1]
  note guess = empty_passphrase_result [OF h1 h2 h3, of True peer "Some ''guess''",
      THEN conjunct1]
  have a: "delete_secret_endpoint True t0 ''K1'' no_peer None sample_world
       = (Inl AttributeError,
          \<lparr>cache = [(''K2'', entry_x), (''K3'', entry_garbled)], logs = []\<rparr>)"
    by (subst bare) (simp add: no_peer_def del, simp add: sample_world_def)
  have b: "fst (delete_secret_endpoint True t0 ''K1'' peer None sample_world)
       = Inr DeleteSecretResponse"
    by (subst none) (simp add: peer_def)
  have c: "fst (delete_secret_endpoint True t0 ''K1'' peer (Some ''guess'') sample_world)
       = Inr DeleteSecretResponse"
    by (subst guess) (simp add: peer_def)
  show ?thesis
    by (intro conjI) (rule h1 h2 h3 a b c)+
qed


theorem empty_passphrase_without_client_witness:
  "fst (delete_secret_endpoint True t0 ''K1'' no_peer None sample_world) = Inl AttributeError
   \<and> map_of (cache (snd (delete_secret_endpoint True t0 ''K1'' no_peer None sample_world)))
         ''K1'' = None
   \<and> passphrase entry_hello = Some []"
proof -
  note call = empty_passphrase_without_client [THEN conjunct2, THEN conjunct2, THEN conjunct2,
      THEN conjunct1]
  have a: "fst (delete_secret_endpoint True t0 ''K1'' no_peer None sample_world)
     = Inl AttributeError"
    by (subst call) simp
  have b: "map_of (cache (snd (delete_secret_endpoint True t0 ''K1'' no_peer None
                            sample_world))) ''K1'' = None"
    by (subst call) simp
  note c = empty_passphrase_without_client [THEN conjunct2, THEN conjunct2, THEN conjunct1]
  show ?thesis
    by (intro conjI) (rule a b c)+
qed

subsection \<open>The sweep\<close>

lemma sweep_keys_post:
  assumes "distinct ks" and "\<forall>k\<in>set ks. map_of c k \<noteq> None" and "distinct (map fst c)"
  shows "\<exists>c'. sweep_keys clock i ks c = Inr c'
           \<and> distinct (map fst c')
           \<and> (\<forall>j<length ks. map_of c' (ks ! j) =
                 (if expiration (the (map_of c (ks ! j))) \<le> clock (i + j) then None
                  else map_of c (ks ! j)))
           \<and> (\<forall>k. k \<notin> set ks \<longrightarrow> map_of c' k = map_of c k)"
  using assms
proof (induction ks arbitrary: i c)
  case Nil
  then show ?case by simp
next
  case (Cons key keys)
  from Cons.prems obtain entry where entry: "map_of c key = Some entry" by auto
  define c1 where "c1 = (if clock i \<ge> expiration entry then delete_secret key c else c)"
  have fresh: "key \<notin> set keys" and dk: "distinct keys" using Cons.prems(1) by simp_all
  have same: "map_of c1 k = map_of c k" if "k \<noteq> key" for k
    using that by (simp add: c1_def map_of_delete_secret)
  have at_key: "map_of c1 key = (if expiration entry \<le> clock i then None else Some entry)"
    by (simp add: c1_def map_of_delete_secret entry)
  have pres: "\<forall>k\<in>set keys. map_of c1 k \<noteq> None"
  proof
    fix k assume k: "k \<in> set keys"
    with fresh have "k \<noteq> key" by auto
    then have "map_of c1 k = map_of c k" by (rule same)
    with Cons.prems(2) k show "map_of c1 k \<noteq> None" by simp
  qed
  have d1: "distinct (map fst c1)"
    using Cons.prems(3) by (simp add: c1_def distinct_delete_secret)
  from Cons.IH [OF dk pres d1, of "Suc i"] obtain c' where
    run: "sweep_keys clock (Suc i) keys c1 = Inr c'"
    and dc': "distinct (map fst c')"
    and inside: "\<forall>j<length keys. map_of c' (keys ! j) =
                 (if expiration (the (map_of c1 (keys ! j))) \<le> clock (Suc i + j) then None
                  else map_of c1 (keys ! j))"
    and outside: "\<forall>k. k \<notin> set keys \<longrightarrow> map_of c' k = map_of c1 k"
    by blast
  have step: "sweep_keys clock i (key # keys) c = Inr c'"
    using run by (simp add: entry c1_def)
  have head: "map_of c' key =
      (if expiration (the (map_of c key)) \<le> clock i then None else map_of c key)"
    using outside fresh at_key entry by simp
  have tail: "map_of c' (keys ! j) =
                 (if expiration (the (map_of c (keys ! j))) \<le> clock (i + Suc j) then None
                  else map_of c (keys ! j))" if "j < length keys" for j
  proof -
    from that have "keys ! j \<in> set keys" by simp
    with fresh have "keys ! j \<noteq> key" by auto
    then have "map_of c1 (keys ! j) = map_of c (keys ! j)" by (rule same)
    with inside that show ?thesis by simp
  qed
  have rest: "map_of c' k = map_of c k" if "k \<notin> set (key # keys)" for k
    using that outside same by simp
  show ?case
    using step dc' head tail rest by (simp add: All_less_Suc2)
qed

text \<open>
  The cache starts empty and only the functions above change it, so its keys are
  pairwise distinct in every state the service reaches.
\<close>

lemma distinct_add_secret:
  "distinct (map fst c) \<Longrightarrow> add_secret now k enc p ttl_seconds c = Inr c' \<Longrightarrow>
     distinct (map fst c')"
  by (auto dest!: add_secret_Inr simp: AList.distinct_update)

lemma distinct_create_secret:
  assumes "distinct (map fst (cache w))"
  shows "distinct (map fst (cache (snd (create_secret encrypt_data db_ok now uuid4 req payload w))))"
  using assms
  by (auto simp: create_secret_def Let_def split: sum.splits option.splits
      dest: distinct_add_secret)

lemma distinct_get_secret_endpoint:
  assumes "distinct (map fst (cache w))"
  shows "distinct (map fst (cache (snd (get_secret_endpoint decrypt_data db_ok now k req w))))"
  using distinct_get_secret [OF assms, of now k]
  by (auto simp: get_secret_endpoint_def distinct_delete_secret split: prod.splits option.splits)

lemma distinct_delete_secret_endpoint:
  assumes "distinct (map fst (cache w))"
  shows "distinct (map fst (cache (snd (delete_secret_endpoint db_ok now k req supplied w))))"
  using distinct_get_secret [OF assms, of now k]
  by (auto simp: delete_secret_endpoint_def distinct_delete_secret split: prod.splits option.splits)

text \<open>
  C7 (one sweep pass), as amended. On a cache with pairwise distinct keys a pass of the
  sweep never raises; it removes every record whose expiration is at or before the
  clock reading taken when that record is examined, leaves every other record in place
  with its value, and adds no key. The pass yields no value: no count of the removed
  records is computed or returned.
\<close>

theorem sweep_pass_post:
  assumes "distinct (map fst c)"
  shows "\<exists>c'. clear_expired_secrets_pass clock c = Inr (None, c')
           \<and> distinct (map fst c')
           \<and> (\<forall>j<length c. map_of c' (fst (c ! j)) =
                 (if expiration (snd (c ! j)) \<le> clock j then None else Some (snd (c ! j))))
           \<and> (\<forall>k. map_of c k = None \<longrightarrow> map_of c' k = None)"
proof -
  have present: "\<forall>k\<in>set (map fst c). map_of c k \<noteq> None"
    by (simp add: map_of_eq_None_iff)
  from sweep_keys_post [OF assms present assms, of clock 0] obtain c' where
    run: "sweep_keys clock 0 (map fst c) c = Inr c'"
    and dc': "distinct (map fst c')"
    and inside: "\<forall>j<length (map fst c). map_of c' (map fst c ! j) =
                 (if expiration (the (map_of c (map fst c ! j))) \<le> clock (0 + j) then None
                  else map_of c (map fst c ! j))"
    and outside: "\<forall>k. k \<notin> set (map fst c) \<longrightarrow> map_of c' k = map_of c k"
    by blast
  have at: "map_of c (fst (c ! j)) = Some (snd (c ! j))" if "j < length c" for j
    using assms that by (simp add: map_of_eq_Some_iff)
  have "clear_expired_secrets_pass clock c = Inr (None, c')"
    using run by (simp add: clear_expired_secrets_pass_def)
  moreover have "\<forall>j<length c. map_of c' (fst (c ! j)) =
                 (if expiration (snd (c ! j)) \<le> clock j then None else Some (snd (c ! j)))"
    using inside at by simp
  moreover have "\<forall>k. map_of c k = None \<longrightarrow> map_of c' k = None"
    using outside by (simp add: map_of_eq_None_iff)
  ultimately show ?thesis using dc' by blast
qed


theorem sweep_pass_post_witness:
  "distinct (map fst (cache sample_world))
   \<and> clear_expired_secrets_pass (\<lambda>i. t0 + 300000000 + int i) (cache sample_world)
       = Inr (None, [(''K2'', entry_x)])
   \<and> map_of [(''K2'', entry_x)] (fst (cache sample_world ! 0)) = None
   \<and> map_of [(''K2'', entry_x)] (fst (cache sample_world ! 1)) = Some entry_x
   \<and> map_of [(''K2'', entry_x)] (fst (cache sample_world ! 2)) = None
   \<and> map_of (cache sample_world) ''K9'' = None
   \<and> map_of [(''K2'', entry_x)] ''K9'' = None"
proof -
  let ?clock = "\<lambda>i. t0 + 300000000 + int i"
  have h1: "distinct (map fst (cache sample_world))"
    by (simp add: sample_world_def)
  have run: "clear_expired_secrets_pass ?clock (cache sample_world) = Inr (None, [(''K2'', entry_x)])"
    by (simp add: clear_expired_secrets_pass_def delete_secret_def sample_defs)
  from sweep_pass_post [OF h1, of ?clock] obtain c' where
    r: "clear_expired_secrets_pass ?clock (cache sample_world) = Inr (None, c')"
    and post: "\<forall>j<length (cache sample_world). map_of c' (fst (cache sample_world ! j)) =
                 (if expiration (snd (cache sample_world ! j)) \<le> ?clock j then None
                  else Some (snd (cache sample_world ! j)))"
    and absent: "\<forall>k. map_of (cache sample_world) k = None \<longrightarrow> map_of c' k = None"
    by blast
  from r run have c': "c' = [(''K2'', entry_x)]"
    by simp
  have len: "length (cache sample_world) = 3"
    by (simp add: sample_world_def)
  have e0: "expiration (snd (cache sample_world ! 0)) \<le> ?clock 0"
    and e1: "\<not> expiration (snd (cache sample_world ! 1)) \<le> ?clock 1"
    and e2: "expiration (snd (cache sample_world ! 2)) \<le> ?clock 2"
    and s1: "snd (cache sample_world ! 1) = entry_x"
    by (simp_all add: sample_defs)
  from post len have
    "map_of c' (fst (cache sample_world ! 0)) =
       (if expiration (snd (cache sample_world ! 0)) \<le> ?clock 0 then None
        else Some (snd (cache sample_world ! 0)))"
    by simp
  with e0 c' have k1: "map_of [(''K2'', entry_x)] (fst (cache sample_world ! 0)) = None"
    by (simp only: if_True)
  from post len have
    "map_of c' (fst (cache sample_world ! 1)) =
       (if expiration (snd (cache sample_world ! 1)) \<le> ?clock 1 then None
        else Some (snd (cache sample_world ! 1)))"
    by simp
  with e1 s1 c' have k2: "map_of [(''K2'', entry_x)] (fst (cache sample_world ! 1)) = Some entry_x"
    by (simp only: if_False)
  from post len have
    "map_of c' (fst (cache sample_world ! 2)) =
       (if expiration (snd (cache sample_world ! 2)) \<le> ?clock 2 then None
        else Some (snd (cache sample_world ! 2)))"
    by simp
  with e2 c' have k3: "map_of [(''K2'', entry_x)] (fst (cache sample_world ! 2)) = None"
    by (simp only: if_True)
  have h2: "map_of (cache sample_world) ''K9'' = None"
    by (simp add: sample_world_def)
  have "map_of c' ''K9'' = None"
    by (rule absent [rule_format, OF h2])
  with c' have k9: "map_of [(''K2'', entry_x)] ''K9'' = None"
    by (simp only:)
  show ?thesis
    by (intro conjI) (rule h1 run k1 k2 k3 h2 k9)+
qed

theorem sweep_pass_post_counterexample:
  "clear_expired_secrets_pass (\<lambda>i. t0 + 300000000) [(''K1'', entry_hello)] = Inr (None, [])
   \<and> length [(''K1'', entry_hello)] - length ([] :: cache) = 1
   \<and> clear_expired_secrets_pass (\<lambda>i. t0 + 300000000) [(''K1'', entry_hello)] \<noteq> Inr (Some 1, [])"
  by (simp add: clear_expired_secrets_pass_def delete_secret_def entry_hello_def)

end
